theory Spec2Isabelle
  imports Main "HOL-Library.Char_ord" "HOL-Library.List_Lexorder"
begin

section \<open>Data model\<close>

text \<open>
  Identifiers are the hexadecimal strings of the document store. The numbers of a task
  are the integer-valued doubles (\<^typ>\<open>int\<close>), as the order index of the data model is an
  integer; a fraction is outside the model. The dates \<open>created_at\<close> and \<open>updated_at\<close> are
  clock readings.
\<close>

type_synonym object_id = string

text \<open>
  A request carries its ids as strings, which the store casts before it uses them in a
  filter or in a document: a string casts when it is 24 hexadecimal digits, and the cast
  of any other string, the empty one too, throws. Ids are compared as they are written,
  in the lower-case form in which the store renders them.
\<close>

definition is_hex :: "char \<Rightarrow> bool" where
  "is_hex c = (c \<in> set ''0123456789abcdefABCDEF'')"

definition is_object_id :: "string \<Rightarrow> bool" where
  "is_object_id s = (length s = 24 \<and> list_all is_hex s)"

text \<open>
  \<open>trim: true\<close> of a schema string: the white space at both ends is dropped (the blank,
  and the characters 9 to 13).
\<close>

definition is_space :: "char \<Rightarrow> bool" where
  "is_space c = (of_char c \<in> {9, 10, 11, 12, 13, 32 :: nat})"

definition trim :: "string \<Rightarrow> string" where
  "trim s = rev (dropWhile is_space (rev (dropWhile is_space s)))"

text \<open>
  The numbers of a document are IEEE doubles. \<open>double_round n\<close> is the double nearest to
  the integer \<open>n\<close>, the even one of two that are equally near: every integer up to
  \<open>2^53\<close> in size is a double, and beyond, doubles lie \<open>2^e\<close> apart, with \<open>e\<close> the number
  of binary digits above 53. The sum of two integer-valued doubles is the rounded sum.
\<close>

function bit_length :: "int \<Rightarrow> nat" where
  "bit_length n = (if n \<le> 0 then 0 else Suc (bit_length (n div 2)))"
  by pat_completeness auto
termination
  by (relation "measure nat") auto

declare bit_length.simps [simp del]

definition double_round :: "int \<Rightarrow> int" where
  "double_round n =
     (if \<bar>n\<bar> < 2 ^ 53 then n
      else (let e = bit_length \<bar>n\<bar> - 53;
                q = \<bar>n\<bar> div 2 ^ e;
                r = \<bar>n\<bar> mod 2 ^ e;
                m = (if 2 ^ e < 2 * r \<or> (2 * r = 2 ^ e \<and> odd q) then q + 1 else q)
            in sgn n * (m * 2 ^ e)))"

definition js_add :: "int \<Rightarrow> int \<Rightarrow> int" where
  "js_add x y = double_round (x + y)"

datatype status = Todo | In_progress | Done

datatype priority = Low | Medium | High | Urgent

text \<open>The document of \<open>models/Task.ts\<close> (\<open>ITask\<close>, \<open>TaskSchema\<close>), defaults applied.\<close>

record task =
  task_id :: object_id
  plan_id :: object_id
  title :: string
  description :: "string option"
  status :: status
  priority :: priority
  assignee_ids :: "object_id list"
  start_date :: "string option"
  due_date :: "string option"
  progress_pct :: int
  parent_id :: "object_id option"
  dependency_ids :: "object_id list"
  tags :: "string list"
  estimate_hours :: "int option"
  order_index :: int
  goal :: "string option"
  task_notes :: "string option"
  deliverables :: "string option"
  created_by :: object_id
  updated_by :: object_id
  created_at :: nat
  updated_at :: nat

text \<open>
  The error taxonomy of the task service. The routes answer with an HTTP status and a
  message: \<open>ValidationError\<close> is a 400 of \<open>validateRequest\<close> or of a reference check,
  \<open>NotFoundError\<close> a 404, \<open>ConflictError\<close> the 400 of a delete blocked by subtasks and
  \<open>StorageError\<close> the 500 of a \<open>catch\<close> block.
\<close>

datatype error =
    ValidationError string "(string \<times> string) list"
  | NotFoundError string
  | ConflictError string
  | StorageError string

fun http_status :: "error \<Rightarrow> nat" where
  "http_status (ValidationError m is) = 400"
| "http_status (NotFoundError m) = 404"
| "http_status (ConflictError m) = 400"
| "http_status (StorageError m) = 500"

section \<open>The task collection\<close>

text \<open>
  The collection is the list of its documents in natural order. The store keeps \<open>_id\<close>
  unique; \<open>unique_ids\<close> is that invariant.
\<close>

type_synonym task_store = "task list"

definition unique_ids :: "task_store \<Rightarrow> bool" where
  "unique_ids ts = distinct (map task_id ts)"

text \<open>\<open>Model.findOne(filter)\<close>: the first document that matches, or \<open>null\<close>.\<close>

definition findOne :: "(task \<Rightarrow> bool) \<Rightarrow> task_store \<Rightarrow> task option" where
  "findOne flt ts = List.find flt ts"

section \<open>Request schemas (\<open>schemas/task.ts\<close>)\<close>

text \<open>The body of \<open>POST /tasks\<close>: \<open>taskBaseSchema\<close>, an optional field being an option.\<close>

record task_input =
  in_plan_id :: string
  in_title :: string
  in_description :: "string option"
  in_status :: status
  in_priority :: "priority option"
  in_assignee_ids :: "object_id list option"
  in_start_date :: "string option"
  in_due_date :: "string option"
  in_progress_pct :: "int option"
  in_parent_id :: "object_id option"
  in_dependency_ids :: "object_id list option"
  in_tags :: "string list option"
  in_estimate_hours :: "int option"
  in_order_index :: "int option"
  in_goal :: "string option"
  in_notes :: "string option"
  in_deliverables :: "string option"

text \<open>\<open>bulkTaskItemSchema = taskBaseSchema.extend({ _id: z.string().optional() })\<close>\<close>

record bulk_item = task_input +
  in_id :: "object_id option"

text \<open>
  The body of \<open>PATCH /tasks/:id\<close>:
  \<open>taskUpdateSchema = taskBaseSchema.partial().omit({ plan_id: true })\<close>.
\<close>

record task_update =
  up_title :: "string option"
  up_description :: "string option"
  up_status :: "status option"
  up_priority :: "priority option"
  up_assignee_ids :: "object_id list option"
  up_start_date :: "string option"
  up_due_date :: "string option"
  up_progress_pct :: "int option"
  up_parent_id :: "object_id option"
  up_dependency_ids :: "object_id list option"
  up_tags :: "string list option"
  up_estimate_hours :: "int option"
  up_order_index :: "int option"
  up_goal :: "string option"
  up_notes :: "string option"
  up_deliverables :: "string option"

text \<open>A validation issue: the path of the field and the message.\<close>

type_synonym issue = "string \<times> string"

text \<open>JavaScript truthiness of an optional string: present and not empty.\<close>

definition truthy :: "string option \<Rightarrow> bool" where
  "truthy v = (case v of None \<Rightarrow> False | Some s \<Rightarrow> s \<noteq> [])"

text \<open>
  \<open>new Date(due) >= new Date(start)\<close>. The parameter \<open>parse\<close> is \<open>Date\<close>'s parser: the
  time value of a date string, or \<open>None\<close> for an invalid date, whose comparisons are all
  false.
\<close>

definition date_ge :: "(string \<Rightarrow> int option) \<Rightarrow> string \<Rightarrow> string \<Rightarrow> bool" where
  "date_ge parse due start =
     (case parse due of None \<Rightarrow> False
      | Some d \<Rightarrow> (case parse start of None \<Rightarrow> False | Some s \<Rightarrow> d \<ge> s))"

definition number_issues :: "string \<Rightarrow> int option \<Rightarrow> int \<Rightarrow> int option \<Rightarrow> issue list" where
  "number_issues path v lo hi =
     (case v of None \<Rightarrow> []
      | Some n \<Rightarrow>
          (if n < lo then [(path, ''Number must be greater than or equal to the minimum'')] else [])
          @ (case hi of None \<Rightarrow> []
             | Some h \<Rightarrow> if h < n then [(path, ''Number must be less than or equal to the maximum'')] else []))"

definition title_issues :: "string \<Rightarrow> issue list" where
  "title_issues t =
     (if length t < 1 then [(''title'', ''Title is required'')] else [])
     @ (if 200 < length t then [(''title'', ''Title too long'')] else [])"

definition taskBaseSchema :: "'a task_input_scheme \<Rightarrow> issue list" where
  "taskBaseSchema body =
     (if length (in_plan_id body) < 1 then [(''plan_id'', ''Plan ID is required'')] else [])
     @ title_issues (in_title body)
     @ number_issues ''progress_pct'' (in_progress_pct body) 0 (Some 100)
     @ number_issues ''estimate_hours'' (in_estimate_hours body) 0 None"

text \<open>
  \<open>taskSchema = taskBaseSchema.refine(...)\<close>: the refinement runs on every body of the
  right shape, and its issue comes after the issues of the base schema.
\<close>

definition due_after_start :: "(string \<Rightarrow> int option) \<Rightarrow> 'a task_input_scheme \<Rightarrow> bool" where
  "due_after_start parse body =
     (if truthy (in_start_date body) \<and> truthy (in_due_date body)
      then date_ge parse (the (in_due_date body)) (the (in_start_date body))
      else True)"

definition taskSchema :: "(string \<Rightarrow> int option) \<Rightarrow> 'a task_input_scheme \<Rightarrow> issue list" where
  "taskSchema parse body =
     taskBaseSchema body
     @ (if due_after_start parse body then []
        else [(''due_date'', ''Due date must be after start date'')])"

definition taskUpdateSchema :: "task_update \<Rightarrow> issue list" where
  "taskUpdateSchema body =
     (case up_title body of None \<Rightarrow> [] | Some t \<Rightarrow> title_issues t)
     @ number_issues ''progress_pct'' (up_progress_pct body) 0 (Some 100)
     @ number_issues ''estimate_hours'' (up_estimate_hours body) 0 None"


text \<open>
  Modelled from the spec: \<open>validateRequest\<close> of \<open>utils/validation\<close>, which is not among the
  sources. A body that fails its schema is answered with a \<open>ValidationError\<close> carrying
  the field paths and messages, before the handler runs and before any write.
\<close>

definition validateRequest :: "issue list \<Rightarrow> error option" where
  "validateRequest issues =
     (case issues of [] \<Rightarrow> None | i # is \<Rightarrow> Some (ValidationError ''Validation failed'' (i # is)))"

section \<open>Create, update and delete (\<open>routes/tasks.ts\<close>)\<close>

text \<open>\<open>x || 0\<close> on an optional number.\<close>

definition or_zero :: "int option \<Rightarrow> int" where
  "or_zero v = (case v of None \<Rightarrow> 0 | Some x \<Rightarrow> if x = 0 then 0 else x)"

text \<open>
  \<open>Task.findOne({ plan_id, status }).sort({ order_index: -1 })\<close>: the first document of
  the partition in descending order of \<open>order_index\<close>.
\<close>

definition maxOrder :: "object_id \<Rightarrow> status \<Rightarrow> task_store \<Rightarrow> task option" where
  "maxOrder plan st ts =
     (case rev (sort_key order_index (filter (\<lambda>t. plan_id t = plan \<and> status t = st) ts)) of
        [] \<Rightarrow> None
      | t # _ \<Rightarrow> Some t)"

text \<open>
  \<open>new Task(data)\<close> with the defaults of \<open>TaskSchema\<close>: priority \<open>medium\<close>, progress 0,
  order index 0, empty arrays; the title and the description are trimmed; \<open>timestamps\<close>
  sets both dates on the first save.
\<close>

definition new_Task :: "object_id \<Rightarrow> object_id \<Rightarrow> object_id \<Rightarrow> nat \<Rightarrow> int option
    \<Rightarrow> 'a task_input_scheme \<Rightarrow> task" where
  "new_Task new_id plan actor now ord body =
     \<lparr>task_id = new_id, plan_id = plan, title = trim (in_title body),
      description = map_option trim (in_description body), status = in_status body,
      priority = (case in_priority body of None \<Rightarrow> Medium | Some p \<Rightarrow> p),
      assignee_ids = (case in_assignee_ids body of None \<Rightarrow> [] | Some a \<Rightarrow> a),
      start_date = in_start_date body, due_date = in_due_date body,
      progress_pct = (case in_progress_pct body of None \<Rightarrow> 0 | Some n \<Rightarrow> n),
      parent_id = in_parent_id body,
      dependency_ids = (case in_dependency_ids body of None \<Rightarrow> [] | Some d \<Rightarrow> d),
      tags = (case in_tags body of None \<Rightarrow> [] | Some g \<Rightarrow> g),
      estimate_hours = in_estimate_hours body,
      order_index = (case ord of None \<Rightarrow> 0 | Some n \<Rightarrow> n),
      goal = in_goal body, task_notes = in_notes body, deliverables = in_deliverables body,
      created_by = actor, updated_by = actor, created_at = now, updated_at = now\<rparr>"

text \<open>
  The reference checks shared by create and update: the parent is looked up by id and plan,
  the dependencies are counted.
\<close>

definition parent_found :: "object_id \<Rightarrow> object_id \<Rightarrow> task_store \<Rightarrow> bool" where
  "parent_found parent plan ts =
     (findOne (\<lambda>t. task_id t = parent \<and> plan_id t = plan) ts \<noteq> None)"

definition find_dependencies :: "object_id list \<Rightarrow> object_id \<Rightarrow> task_store \<Rightarrow> task list" where
  "find_dependencies deps plan ts = filter (\<lambda>t. task_id t \<in> set deps \<and> plan_id t = plan) ts"

text \<open>
  What \<open>save\<close> and \<open>insertMany\<close> validate of a document before they write it: the ids
  of the plan, of the parent when there is one, of the dependencies and of the assignees
  cast, and the trimmed title is not empty.
\<close>

definition valid_document :: "task \<Rightarrow> bool" where
  "valid_document t =
     (is_object_id (plan_id t)
      \<and> (case parent_id t of None \<Rightarrow> True | Some p \<Rightarrow> is_object_id p)
      \<and> list_all is_object_id (dependency_ids t)
      \<and> list_all is_object_id (assignee_ids t)
      \<and> title t \<noteq> [])"

text \<open>
  \<open>POST /tasks\<close>. \<open>new_id\<close> is the identifier the driver generates. A lookup whose filter
  holds an id that does not cast throws, as does the save of a document that is not valid
  or whose \<open>_id\<close> the store holds already; the \<open>catch\<close> block answers each with a 500.
  The default order index is \<open>(maxOrder?.order_index || 0) + 1\<close>, a sum of doubles.
\<close>

definition create :: "(string \<Rightarrow> int option) \<Rightarrow> object_id \<Rightarrow> nat \<Rightarrow> object_id \<Rightarrow> task_input
    \<Rightarrow> task_store \<Rightarrow> task_store \<times> (error + task)" where
  "create parse actor now new_id body ts =
     (case validateRequest (taskSchema parse body) of
        Some e \<Rightarrow> (ts, Inl e)
      | None \<Rightarrow>
          if truthy (in_parent_id body)
             \<and> \<not> (is_object_id (the (in_parent_id body)) \<and> is_object_id (in_plan_id body))
          then (ts, Inl (StorageError ''Failed to create task''))
          else if truthy (in_parent_id body)
             \<and> \<not> parent_found (the (in_parent_id body)) (in_plan_id body) ts
          then (ts, Inl (ValidationError ''Parent task not found or not in same plan'' []))
          else if (case in_dependency_ids body of None \<Rightarrow> False
                   | Some deps \<Rightarrow> length deps > 0
                       \<and> \<not> (list_all is_object_id deps \<and> is_object_id (in_plan_id body)))
          then (ts, Inl (StorageError ''Failed to create task''))
          else if (case in_dependency_ids body of None \<Rightarrow> False
                   | Some deps \<Rightarrow> length deps > 0
                       \<and> length (find_dependencies deps (in_plan_id body) ts) \<noteq> length deps)
          then (ts, Inl (ValidationError ''Some dependencies not found or not in same plan'' []))
          else if in_order_index body = None \<and> \<not> is_object_id (in_plan_id body)
          then (ts, Inl (StorageError ''Failed to create task''))
          else
            (let ord = (case in_order_index body of
                          None \<Rightarrow> js_add (or_zero (map_option order_index
                                     (maxOrder (in_plan_id body) (in_status body) ts))) 1
                        | Some n \<Rightarrow> n);
                 t = new_Task new_id (in_plan_id body) actor now (Some ord) body
             in if valid_document t \<and> new_id \<notin> set (map task_id ts)
                then (ts @ [t], Inr t)
                else (ts, Inl (StorageError ''Failed to create task''))))"

text \<open>
  \<open>Object.assign(task, req.body)\<close>: every field present in the body replaces the task's,
  the title and the description trimmed.
\<close>

definition assign :: "task \<Rightarrow> task_update \<Rightarrow> task" where
  "assign t body =
     t\<lparr>title := (case up_title body of None \<Rightarrow> title t | Some v \<Rightarrow> trim v),
       description := (case up_description body of None \<Rightarrow> description t
                       | Some v \<Rightarrow> Some (trim v)),
       status := (case up_status body of None \<Rightarrow> status t | Some v \<Rightarrow> v),
       priority := (case up_priority body of None \<Rightarrow> priority t | Some v \<Rightarrow> v),
       assignee_ids := (case up_assignee_ids body of None \<Rightarrow> assignee_ids t | Some v \<Rightarrow> v),
       start_date := (case up_start_date body of None \<Rightarrow> start_date t | Some v \<Rightarrow> Some v),
       due_date := (case up_due_date body of None \<Rightarrow> due_date t | Some v \<Rightarrow> Some v),
       progress_pct := (case up_progress_pct body of None \<Rightarrow> progress_pct t | Some v \<Rightarrow> v),
       parent_id := (case up_parent_id body of None \<Rightarrow> parent_id t | Some v \<Rightarrow> Some v),
       dependency_ids := (case up_dependency_ids body of None \<Rightarrow> dependency_ids t | Some v \<Rightarrow> v),
       tags := (case up_tags body of None \<Rightarrow> tags t | Some v \<Rightarrow> v),
       estimate_hours := (case up_estimate_hours body of None \<Rightarrow> estimate_hours t | Some v \<Rightarrow> Some v),
       order_index := (case up_order_index body of None \<Rightarrow> order_index t | Some v \<Rightarrow> v),
       goal := (case up_goal body of None \<Rightarrow> goal t | Some v \<Rightarrow> Some v),
       task_notes := (case up_notes body of None \<Rightarrow> task_notes t | Some v \<Rightarrow> Some v),
       deliverables := (case up_deliverables body of None \<Rightarrow> deliverables t | Some v \<Rightarrow> Some v)\<rparr>"

text \<open>\<open>task.save()\<close> of a loaded document: the document with its \<open>_id\<close> is replaced.\<close>

fun save :: "task \<Rightarrow> task_store \<Rightarrow> task_store" where
  "save t' [] = []"
| "save t' (t # ts) = (if task_id t = task_id t' then t' # ts else t # save t' ts)"

text \<open>
  \<open>PATCH /tasks/:id?plan_id=...\<close>. The test \<open>req.body.parent_id !== task.parent_id\<close>
  compares a string with the stored id object and is always true: a parent in the body is
  always looked up. Casts and the validation of the save fail as in the create.
\<close>

definition update :: "object_id \<Rightarrow> nat \<Rightarrow> object_id \<Rightarrow> object_id \<Rightarrow> task_update
    \<Rightarrow> task_store \<Rightarrow> task_store \<times> (error + task)" where
  "update actor now ident plan body ts =
     (case validateRequest (taskUpdateSchema body) of
        Some e \<Rightarrow> (ts, Inl e)
      | None \<Rightarrow>
          if \<not> (is_object_id ident \<and> is_object_id plan)
          then (ts, Inl (StorageError ''Failed to update task''))
          else
          (case findOne (\<lambda>t. task_id t = ident \<and> plan_id t = plan) ts of
             None \<Rightarrow> (ts, Inl (NotFoundError ''Task not found''))
           | Some t \<Rightarrow>
               if truthy (up_parent_id body) \<and> \<not> is_object_id (the (up_parent_id body))
               then (ts, Inl (StorageError ''Failed to update task''))
               else if truthy (up_parent_id body)
                  \<and> \<not> parent_found (the (up_parent_id body)) (plan_id t) ts
               then (ts, Inl (ValidationError ''Parent task not found or not in same plan'' []))
               else if (case up_dependency_ids body of None \<Rightarrow> False
                        | Some deps \<Rightarrow> length deps > 0 \<and> \<not> list_all is_object_id deps)
               then (ts, Inl (StorageError ''Failed to update task''))
               else if (case up_dependency_ids body of None \<Rightarrow> False
                        | Some deps \<Rightarrow> length deps > 0
                            \<and> length (find_dependencies deps (plan_id t) ts) \<noteq> length deps)
               then (ts, Inl (ValidationError ''Some dependencies not found or not in same plan'' []))
               else
                 (let t' = (assign t body)\<lparr>updated_by := actor, updated_at := now\<rparr>
                  in if \<not> valid_document t'
                     then (ts, Inl (StorageError ''Failed to update task''))
                     else (save t' ts, Inr t'))))"

text \<open>\<open>Task.findByIdAndDelete(id)\<close>: the first document with the id is removed.\<close>

fun findByIdAndDelete :: "object_id \<Rightarrow> task_store \<Rightarrow> task_store" where
  "findByIdAndDelete ident [] = []"
| "findByIdAndDelete ident (t # ts) =
     (if task_id t = ident then ts else t # findByIdAndDelete ident ts)"

text \<open>
  \<open>DELETE /tasks/:id?plan_id=...\<close>. The lookup of a child, \<open>Task.findOne({ parent_id })\<close>,
  is not restricted to the plan. The ids of the request are taken to cast, as the ids of
  a stored task and of its plan do.
\<close>

definition delete_task :: "object_id \<Rightarrow> object_id \<Rightarrow> task_store \<Rightarrow> task_store \<times> (error + string)" where
  "delete_task ident plan ts =
     (case findOne (\<lambda>t. task_id t = ident \<and> plan_id t = plan) ts of
        None \<Rightarrow> (ts, Inl (NotFoundError ''Task not found''))
      | Some t \<Rightarrow>
          (case findOne (\<lambda>c. parent_id c = Some ident) ts of
             Some c \<Rightarrow> (ts, Inl (ConflictError
               ''Cannot delete task with subtasks. Delete subtasks first or use cascade delete.''))
           | None \<Rightarrow> (findByIdAndDelete ident ts, Inr ''Task deleted successfully'')))"

section \<open>Bulk create (\<open>POST /tasks/bulk\<close>)\<close>









text \<open>
  \<open>tasks.map(taskData => ({ ...taskData, plan_id, created_by, updated_by }))\<close>: a payload
  keeps the \<open>_id\<close> its client supplied; \<open>new_id i\<close> is the identifier generated for the
  payload at index \<open>i\<close> when it supplied none. The order index is the payload's, or the
  schema default.
\<close>

definition tasksToInsert :: "object_id \<Rightarrow> nat \<Rightarrow> (nat \<Rightarrow> object_id) \<Rightarrow> bulk_item list
    \<Rightarrow> object_id \<Rightarrow> task list" where
  "tasksToInsert actor now new_id items plan =
     map (\<lambda>(i, taskData).
            new_Task (case in_id taskData of None \<Rightarrow> new_id i | Some x \<Rightarrow> x)
              plan actor now (in_order_index taskData) taskData)
         (enumerate 0 items)"








section \<open>Listing (\<open>GET /tasks\<close>)\<close>


text \<open>
  The value a document is sorted by. The store orders an empty array before \<open>null\<close> (a
  missing field), \<open>null\<close> before numbers and numbers before strings, numbers by value,
  strings and ids by their bytes. An array that is not empty is sorted by its least
  element when the direction is ascending and by its greatest when it is descending. A
  field no document has is \<open>null\<close> in every document.
\<close>

datatype sort_value = VEmpty | VNull | VNum int | VStr string

fun array_value :: "int \<Rightarrow> string list \<Rightarrow> sort_value" where
  "array_value dir [] = VEmpty"
| "array_value dir (x # xs) = VStr (if dir = 1 then fold min xs x else fold max xs x)"

fun status_name :: "status \<Rightarrow> string" where
  "status_name Todo = ''todo''"
| "status_name In_progress = ''in_progress''"
| "status_name Done = ''done''"

fun priority_name :: "priority \<Rightarrow> string" where
  "priority_name Low = ''low''"
| "priority_name Medium = ''medium''"
| "priority_name High = ''high''"
| "priority_name Urgent = ''urgent''"

definition opt_str :: "string option \<Rightarrow> sort_value" where
  "opt_str v = (case v of None \<Rightarrow> VNull | Some s \<Rightarrow> VStr s)"

definition field_value :: "string \<Rightarrow> int \<Rightarrow> task \<Rightarrow> sort_value" where
  "field_value f dir t =
     (if f = ''_id'' then VStr (task_id t)
      else if f = ''assignee_ids'' then array_value dir (assignee_ids t)
      else if f = ''dependency_ids'' then array_value dir (dependency_ids t)
      else if f = ''tags'' then array_value dir (tags t)
      else if f = ''plan_id'' then VStr (plan_id t)
      else if f = ''title'' then VStr (title t)
      else if f = ''description'' then opt_str (description t)
      else if f = ''status'' then VStr (status_name (status t))
      else if f = ''priority'' then VStr (priority_name (priority t))
      else if f = ''start_date'' then opt_str (start_date t)
      else if f = ''due_date'' then opt_str (due_date t)
      else if f = ''progress_pct'' then VNum (progress_pct t)
      else if f = ''parent_id'' then opt_str (parent_id t)
      else if f = ''estimate_hours'' then
        (case estimate_hours t of None \<Rightarrow> VNull | Some n \<Rightarrow> VNum n)
      else if f = ''order_index'' then VNum (order_index t)
      else if f = ''goal'' then opt_str (goal t)
      else if f = ''notes'' then opt_str (task_notes t)
      else if f = ''deliverables'' then opt_str (deliverables t)
      else if f = ''created_by'' then VStr (created_by t)
      else if f = ''updated_by'' then VStr (updated_by t)
      else if f = ''created_at'' then VNum (int (created_at t))
      else if f = ''updated_at'' then VNum (int (updated_at t))
      else VNull)"

fun value_rank :: "sort_value \<Rightarrow> nat" where
  "value_rank VEmpty = 0"
| "value_rank VNull = 1"
| "value_rank (VNum a) = 2"
| "value_rank (VStr s) = 3"

fun value_less :: "sort_value \<Rightarrow> sort_value \<Rightarrow> bool" where
  "value_less (VNum a) (VNum b) = (a < b)"
| "value_less (VStr s) (VStr r) = (s < r)"
| "value_less x y = (value_rank x < value_rank y)"


fun insert_by :: "('a \<Rightarrow> 'a \<Rightarrow> bool) \<Rightarrow> 'a \<Rightarrow> 'a list \<Rightarrow> 'a list" where
  "insert_by le x [] = [x]"
| "insert_by le x (y # ys) = (if le x y then x # y # ys else y # insert_by le x ys)"





section \<open>Import (\<open>POST /plans/import\<close>)\<close>

datatype member_role = Owner | Editor | Viewer

record plan_member =
  user_id :: object_id
  role :: member_role
  joined_at :: nat

text \<open>The document of \<open>models/Plan.ts\<close>.\<close>

record plan =
  plan_ident :: object_id
  name :: string
  plan_description :: "string option"
  owner_id :: object_id
  members :: "plan_member list"

text \<open>The body of the import request, \<open>plan_data\<close>; a nullable field is an option too.\<close>

record import_member =
  im_name :: string
  im_email :: string
  im_role :: "member_role option"

record import_assignee =
  ia_name :: string
  ia_email :: string

record import_task =
  it_title :: string
  it_description :: "string option"
  it_status :: "status option"
  it_priority :: "priority option"
  it_assignees :: "import_assignee list option"
  it_start_date :: "string option"
  it_due_date :: "string option"
  it_progress_pct :: "int option"
  it_parent_id :: "string option"
  it_dependency_ids :: "string list option"
  it_tags :: "string list option"
  it_estimate_hours :: "int option"
  it_order_index :: "int option"
  it_goal :: "string option"
  it_notes :: "string option"
  it_deliverables :: "string option"

record import_plan =
  ip_name :: string
  ip_description :: "string option"
  ip_members :: "import_member list option"

record plan_data =
  pd_plan :: import_plan
  pd_tasks :: "import_task list option"

text \<open>
  What the handler meets outside the task and plan collections. The user collection is
  read and written only inside the \<open>try\<close> blocks of the members and assignees, which run
  interleaved; the outcome of each block is given here: the user found or created for the
  member at an index, or for the assignee at an index of the task at an index, and
  \<open>None\<close> when the block throws. In the same way \<open>task_saved i\<close> is the identifier under
  which the task at index \<open>i\<close> is saved, \<open>None\<close> when its \<open>try\<close> block throws;
  \<open>plan_saved\<close> is the identifier of the new plan, \<open>None\<close> when the first \<open>plan.save()\<close>
  throws, and \<open>members_saved\<close> tells whether the second one succeeds. \<open>email_ok\<close> is the
  e-mail format check of the schema.
\<close>

record import_env =
  email_ok :: "string \<Rightarrow> bool"
  plan_saved :: "object_id option"
  members_saved :: bool
  member_user :: "nat \<Rightarrow> object_id option"
  assignee_user :: "nat \<Rightarrow> nat \<Rightarrow> object_id option"
  task_saved :: "nat \<Rightarrow> object_id option"

record db =
  db_plans :: "plan list"
  db_tasks :: task_store

text \<open>\<open>xs.filter(Boolean)\<close> on results that are a document or \<open>null\<close>.\<close>

definition filter_Boolean :: "'a option list \<Rightarrow> 'a list" where
  "filter_Boolean xs = map the (filter (\<lambda>x. x \<noteq> None) xs)"

text \<open>\<open>x || index\<close> on a number.\<close>

definition or_index :: "int \<Rightarrow> nat \<Rightarrow> int" where
  "or_index x index = (if x = 0 then int index else x)"

definition import_task_issues :: "(string \<Rightarrow> bool) \<Rightarrow> import_task \<Rightarrow> issue list" where
  "import_task_issues ok t =
     (if length (it_title t) < 1 then [(''title'', ''Task title is required'')] else [])
     @ concat (map (\<lambda>a. if ok (ia_email a) then [] else [(''email'', ''Invalid email'')])
                   (case it_assignees t of None \<Rightarrow> [] | Some a \<Rightarrow> a))
     @ number_issues ''progress_pct'' (it_progress_pct t) 0 (Some 100)
     @ (case it_estimate_hours t of None \<Rightarrow> []
        | Some h \<Rightarrow> if h > 0 then [] else [(''estimate_hours'', ''Number must be greater than 0'')])"

definition import_issues :: "(string \<Rightarrow> bool) \<Rightarrow> plan_data \<Rightarrow> issue list" where
  "import_issues ok d =
     (if length (ip_name (pd_plan d)) < 1 then [(''name'', ''Plan name is required'')] else [])
     @ (if 100 < length (ip_name (pd_plan d)) then [(''name'', ''Plan name too long'')] else [])
     @ (case ip_description (pd_plan d) of None \<Rightarrow> []
        | Some x \<Rightarrow> if 500 < length x then [(''description'', ''Description too long'')] else [])
     @ concat (map (\<lambda>m. (if ok (im_email m) then [] else [(''email'', ''Invalid email'')])
                         @ (if im_role m = Some Owner then [(''role'', ''Invalid enum value'')] else []))
                   (case ip_members (pd_plan d) of None \<Rightarrow> [] | Some m \<Rightarrow> m))
     @ concat (map (import_task_issues ok) (case pd_tasks d of None \<Rightarrow> [] | Some t \<Rightarrow> t))"

text \<open>The members: a block that throws gives \<open>null\<close>, which is filtered out.\<close>

definition memberPromises :: "import_env \<Rightarrow> nat \<Rightarrow> import_member list \<Rightarrow> plan_member option list" where
  "memberPromises env now ms =
     map (\<lambda>(i, memberData).
            case member_user env i of
              None \<Rightarrow> None
            | Some u \<Rightarrow> Some \<lparr>user_id = u,
                             role = (case im_role memberData of None \<Rightarrow> Viewer | Some r \<Rightarrow> r),
                             joined_at = now\<rparr>)
         (enumerate 0 ms)"

definition assigneeIds :: "import_env \<Rightarrow> nat \<Rightarrow> import_assignee list \<Rightarrow> object_id list" where
  "assigneeIds env index as =
     filter_Boolean (map (\<lambda>(j, assigneeData). assignee_user env index j) (enumerate 0 as))"

text \<open>The task built from the snapshot entry at \<open>index\<close> and saved under \<open>new_id\<close>.\<close>

definition import_Task :: "import_env \<Rightarrow> object_id \<Rightarrow> nat \<Rightarrow> object_id \<Rightarrow> object_id \<Rightarrow> nat
    \<Rightarrow> import_task \<Rightarrow> task" where
  "import_Task env actor now plan new_id index taskData =
     \<lparr>task_id = new_id, plan_id = plan, title = trim (it_title taskData),
      description = map_option trim (it_description taskData),
      status = (case it_status taskData of None \<Rightarrow> Todo | Some st \<Rightarrow> st),
      priority = (case it_priority taskData of None \<Rightarrow> Medium | Some p \<Rightarrow> p),
      assignee_ids = assigneeIds env index
                       (case it_assignees taskData of None \<Rightarrow> [] | Some a \<Rightarrow> a),
      start_date = it_start_date taskData, due_date = it_due_date taskData,
      progress_pct = (case it_progress_pct taskData of None \<Rightarrow> 0 | Some n \<Rightarrow> n),
      parent_id = it_parent_id taskData,
      dependency_ids = (case it_dependency_ids taskData of None \<Rightarrow> [] | Some d \<Rightarrow> d),
      tags = (case it_tags taskData of None \<Rightarrow> [] | Some g \<Rightarrow> g),
      estimate_hours = it_estimate_hours taskData,
      order_index = or_index (case it_order_index taskData of None \<Rightarrow> 0 | Some n \<Rightarrow> n) index,
      goal = it_goal taskData, task_notes = it_notes taskData,
      deliverables = it_deliverables taskData,
      created_by = actor, updated_by = actor, created_at = now, updated_at = now\<rparr>"

definition taskPromises :: "import_env \<Rightarrow> object_id \<Rightarrow> nat \<Rightarrow> object_id \<Rightarrow> import_task list
    \<Rightarrow> task option list" where
  "taskPromises env actor now plan tasks =
     map (\<lambda>(index, taskData).
            case task_saved env index of
              None \<Rightarrow> None
            | Some new_id \<Rightarrow> Some (import_Task env actor now plan new_id index taskData))
         (enumerate 0 tasks)"

text \<open>
  The handler: the new state, and the plan with \<open>tasks_created\<close>, or the 500 of the outer
  \<open>catch\<close> when saving the plan throws.
\<close>

definition import_plan_data :: "import_env \<Rightarrow> object_id \<Rightarrow> nat \<Rightarrow> plan_data \<Rightarrow> db
    \<Rightarrow> db \<times> (error + plan \<times> nat)" where
  "import_plan_data env actor now d s =
     (case validateRequest (import_issues (email_ok env) d) of
        Some e \<Rightarrow> (s, Inl e)
      | None \<Rightarrow>
          (case plan_saved env of
             None \<Rightarrow> (s, Inl (StorageError ''Failed to import plan''))
           | Some pid \<Rightarrow>
               (let plan0 = \<lparr>plan_ident = pid, name = ip_name (pd_plan d),
                             plan_description = ip_description (pd_plan d),
                             owner_id = actor, members = []\<rparr>;
                    processedMembers = filter_Boolean (memberPromises env now
                      (case ip_members (pd_plan d) of None \<Rightarrow> [] | Some m \<Rightarrow> m))
                in if \<not> members_saved env
                   then (s\<lparr>db_plans := db_plans s @ [plan0]\<rparr>,
                         Inl (StorageError ''Failed to import plan''))
                   else
                     (let plan1 = plan0\<lparr>members := processedMembers\<rparr>;
                          createdTasks = filter_Boolean (taskPromises env actor now pid
                            (case pd_tasks d of None \<Rightarrow> [] | Some t \<Rightarrow> t))
                      in (\<lparr>db_plans = db_plans s @ [plan1],
                           db_tasks = db_tasks s @ createdTasks\<rparr>,
                          Inr (plan1, length createdTasks))))))"

text \<open>The entries of a snapshot, the empty list when the field is absent.\<close>

definition snapshot_tasks :: "plan_data \<Rightarrow> import_task list" where
  "snapshot_tasks d = (case pd_tasks d of None \<Rightarrow> [] | Some t \<Rightarrow> t)"

definition snapshot_members :: "plan_data \<Rightarrow> import_member list" where
  "snapshot_members d = (case ip_members (pd_plan d) of None \<Rightarrow> [] | Some m \<Rightarrow> m)"

definition snapshot_assignees :: "import_task \<Rightarrow> import_assignee list" where
  "snapshot_assignees t = (case it_assignees t of None \<Rightarrow> [] | Some a \<Rightarrow> a)"

text \<open>The indices below \<open>n\<close> at which an outcome is not a failure.\<close>

definition succeeded :: "(nat \<Rightarrow> 'a option) \<Rightarrow> nat \<Rightarrow> nat list" where
  "succeeded outcome n = filter (\<lambda>i. outcome i \<noteq> None) [0..<n]"

section \<open>Reorder (\<open>POST /tasks/reorder\<close>)\<close>

text \<open>
  One \<open>updateOne\<close> operation of the bulk write:
  \<^verbatim>\<open>{ filter: { _id: taskId, plan_id }, update: { order_index: index + 1, updated_by } }\<close>.
\<close>

record update_op =
  filter_id :: object_id
  filter_plan_id :: object_id
  set_order_index :: int
  set_updated_by :: object_id

definition matches :: "update_op \<Rightarrow> task \<Rightarrow> bool" where
  "matches op t = (task_id t = filter_id op \<and> plan_id t = filter_plan_id op)"

text \<open>
  The update sets the two fields; the schema's \<open>timestamps\<close> option makes the bulk write
  set \<open>updated_at\<close> to the clock as well.
\<close>

definition apply_update :: "nat \<Rightarrow> update_op \<Rightarrow> task \<Rightarrow> task" where
  "apply_update now op t =
     t\<lparr>order_index := set_order_index op, updated_by := set_updated_by op, updated_at := now\<rparr>"

text \<open>
  \<open>updateOne\<close>: the first document matching the filter is updated; the second component
  is the operation's share of \<open>modifiedCount\<close>, 1 when the document changed.
\<close>

fun updateOne :: "nat \<Rightarrow> update_op \<Rightarrow> task_store \<Rightarrow> task_store \<times> nat" where
  "updateOne now op [] = ([], 0)"
| "updateOne now op (t # ts) =
     (if matches op t
      then (apply_update now op t # ts, if apply_update now op t = t then 0 else 1)
      else (t # fst (updateOne now op ts), snd (updateOne now op ts)))"

text \<open>\<open>Model.bulkWrite(ops)\<close>, ordered: the operations run one after the other.\<close>

fun bulkWrite :: "nat \<Rightarrow> update_op list \<Rightarrow> task_store \<Rightarrow> task_store \<times> nat" where
  "bulkWrite now [] ts = (ts, 0)"
| "bulkWrite now (op # ops) ts =
     (let r = updateOne now op ts; r' = bulkWrite now ops (fst r)
      in (fst r', snd r + snd r'))"






text \<open>
  The effect of the operations on a single document: one operation, and all of them in
  order.
\<close>

definition step_op :: "nat \<Rightarrow> update_op \<Rightarrow> task \<Rightarrow> task" where
  "step_op now op t = (if matches op t then apply_update now op t else t)"

definition apply_ops :: "nat \<Rightarrow> update_op list \<Rightarrow> task \<Rightarrow> task" where
  "apply_ops now ops t = fold (step_op now) ops t"


section \<open>Example data\<close>

text \<open>The ids of the examples: six task ids and two plan ids.\<close>

abbreviation id_a :: object_id where "id_a \<equiv> ''aaaaaaaaaaaaaaaaaaaaaaaa''"

abbreviation id_b :: object_id where "id_b \<equiv> ''bbbbbbbbbbbbbbbbbbbbbbbb''"

abbreviation id_c :: object_id where "id_c \<equiv> ''cccccccccccccccccccccccc''"




abbreviation plan_p :: object_id where "plan_p \<equiv> ''111111111111111111111111''"


text \<open>A task with the given id, plan, status, order index and parent.\<close>

definition mk_task :: "object_id \<Rightarrow> object_id \<Rightarrow> status \<Rightarrow> int \<Rightarrow> object_id option \<Rightarrow> task" where
  "mk_task i p st n par =
     \<lparr>task_id = i, plan_id = p, title = ''T'', description = None, status = st,
      priority = Medium, assignee_ids = [], start_date = None, due_date = None,
      progress_pct = 0, parent_id = par, dependency_ids = [], tags = [],
      estimate_hours = None, order_index = n, goal = None, task_notes = None,
      deliverables = None, created_by = ''u0'', updated_by = ''u0'',
      created_at = 0, updated_at = 0\<rparr>"


text \<open>A create payload with the given plan, status, order index and dates.\<close>

definition mk_input :: "string \<Rightarrow> status \<Rightarrow> int option \<Rightarrow> string option \<Rightarrow> string option \<Rightarrow> task_input" where
  "mk_input p st ord start due =
     \<lparr>in_plan_id = p, in_title = ''C'', in_description = None, in_status = st,
      in_priority = None, in_assignee_ids = None, in_start_date = start, in_due_date = due,
      in_progress_pct = None, in_parent_id = None, in_dependency_ids = None, in_tags = None,
      in_estimate_hours = None, in_order_index = ord, in_goal = None, in_notes = None,
      in_deliverables = None\<rparr>"

text \<open>The time values, in milliseconds, of the two dates of the examples.\<close>

definition iso_parse :: "string \<Rightarrow> int option" where
  "iso_parse s =
     (if s = ''2024-01-01'' then Some 1704067200000
      else if s = ''2024-01-15'' then Some 1705276800000
      else None)"

text \<open>Plan \<open>p\<close> with the to-do tasks \<open>a\<close> and \<open>b\<close> at order indices 1 and 2.\<close>

definition store_ab :: task_store where
  "store_ab = [mk_task id_a plan_p Todo 1 None, mk_task id_b plan_p Todo 2 None]"

text \<open>An update that sets the two dates and nothing else.\<close>

definition dates_update :: "string option \<Rightarrow> string option \<Rightarrow> task_update" where
  "dates_update start due =
     \<lparr>up_title = None, up_description = None, up_status = None, up_priority = None,
      up_assignee_ids = None, up_start_date = start, up_due_date = due,
      up_progress_pct = None, up_parent_id = None, up_dependency_ids = None,
      up_tags = None, up_estimate_hours = None, up_order_index = None, up_goal = None,
      up_notes = None, up_deliverables = None\<rparr>"


text \<open>The generated identifiers of the examples: \<open>n\<close>, \<open>nn\<close>, \<open>nnn\<close>, ...\<close>

definition gen_id :: "nat \<Rightarrow> object_id" where
  "gen_id i = replicate (Suc i) CHR ''n''"


text \<open>A snapshot task: title, order index, parent, dependencies, assignees.\<close>

definition mk_snapshot :: "string \<Rightarrow> int option \<Rightarrow> string option \<Rightarrow> string list option
    \<Rightarrow> import_assignee list option \<Rightarrow> import_task" where
  "mk_snapshot ttl ord par deps as =
     \<lparr>it_title = ttl, it_description = None, it_status = None, it_priority = None,
      it_assignees = as, it_start_date = None, it_due_date = None, it_progress_pct = None,
      it_parent_id = par, it_dependency_ids = deps, it_tags = None,
      it_estimate_hours = None, it_order_index = ord, it_goal = None, it_notes = None,
      it_deliverables = None\<rparr>"

definition mk_plan_data :: "import_member list \<Rightarrow> import_task list \<Rightarrow> plan_data" where
  "mk_plan_data ms tasks =
     \<lparr>pd_plan = \<lparr>ip_name = ''Imported'', ip_description = None, ip_members = Some ms\<rparr>,
      pd_tasks = Some tasks\<rparr>"

text \<open>An environment in which nothing fails, and one in which the member at index 0, the
  second assignee of the task at index 0 and the task at index 1 fail.\<close>

definition ok_env :: import_env where
  "ok_env =
     \<lparr>email_ok = (\<lambda>e. True), plan_saved = Some ''plan1'', members_saved = True,
      member_user = (\<lambda>i. Some (''m'' @ gen_id i)),
      assignee_user = (\<lambda>i j. Some (''s'' @ gen_id j)),
      task_saved = (\<lambda>i. Some (gen_id i))\<rparr>"

definition flaky_env :: import_env where
  "flaky_env =
     \<lparr>email_ok = (\<lambda>e. True), plan_saved = Some ''plan1'', members_saved = True,
      member_user = (\<lambda>i. if i = 0 then None else Some (''m'' @ gen_id i)),
      assignee_user = (\<lambda>i j. if i = 0 \<and> j = 1 then None else Some (''s'' @ gen_id j)),
      task_saved = (\<lambda>i. if i = 1 then None else Some (gen_id i))\<rparr>"

definition empty_db :: db where
  "empty_db = \<lparr>db_plans = [], db_tasks = []\<rparr>"

section \<open>Properties of reorder\<close>

lemma matches_apply_update [simp]: "matches op' (apply_update now op t) = matches op' t"
  by (simp add: matches_def apply_update_def)

lemma task_id_apply_update [simp]: "task_id (apply_update now op t) = task_id t"
  by (simp add: apply_update_def)

lemma task_id_step_op [simp]: "task_id (step_op now op t) = task_id t"
  by (simp add: step_op_def)

lemma matches_step_op [simp]: "matches op' (step_op now op t) = matches op' t"
  by (simp add: step_op_def)

lemma updateOne_no_match:
  "\<forall>t\<in>set ts. \<not> matches op t \<Longrightarrow> updateOne now op ts = (ts, 0)"
  by (induction ts) auto




lemma apply_ops_no_match:
  "\<forall>op\<in>set ops. \<not> matches op t \<Longrightarrow> apply_ops now ops t = t"
  unfolding apply_ops_def
  by (induction ops) (auto simp: step_op_def)

lemma task_id_apply_ops [simp]: "task_id (apply_ops now ops t) = task_id t"
  unfolding apply_ops_def
  by (induction ops arbitrary: t) auto

lemma matches_apply_ops [simp]: "matches op' (apply_ops now ops t) = matches op' t"
  unfolding apply_ops_def
  by (induction ops arbitrary: t) auto







lemma apply_ops_frame:
  "task_id t \<notin> filter_id ` set ops \<Longrightarrow> apply_ops now ops t = t"
  by (rule apply_ops_no_match) (auto simp: matches_def)


lemma updateOne_length [simp]: "length (fst (updateOne now op ts)) = length ts"
  by (induction ts) auto

lemma bulkWrite_length [simp]: "length (fst (bulkWrite now ops ts)) = length ts"
  by (induction ops arbitrary: ts) (auto simp: Let_def)











section \<open>Properties of create\<close>

lemma or_zero_Some [simp]: "or_zero (Some x) = x"
  by (simp add: or_zero_def)

lemma or_zero_None [simp]: "or_zero None = 0"
  by (simp add: or_zero_def)










section \<open>Properties of delete\<close>

lemma findOne_None_iff: "findOne P ts = None \<longleftrightarrow> (\<forall>t\<in>set ts. \<not> P t)"
  by (auto simp: findOne_def find_None_iff)

lemma findByIdAndDelete_remove1:
  "distinct (map task_id ts) \<Longrightarrow> x \<in> set ts \<Longrightarrow> findByIdAndDelete (task_id x) ts = remove1 x ts"
proof (induction ts)
  case Nil
  then show ?case by simp
next
  case (Cons t ts)
  show ?case
  proof (cases "t = x")
    case True
    then show ?thesis by simp
  next
    case False
    with Cons.prems have "x \<in> set ts" by simp
    with Cons.prems have "task_id t \<noteq> task_id x" by force
    with Cons \<open>x \<in> set ts\<close> False show ?thesis by simp
  qed
qed

text \<open>
  C4: deleting a task \<open>x\<close> of the collection, under its own plan, fails with a
  \<open>ConflictError\<close> and leaves the collection as it is whenever some task has \<open>x\<close> as
  its parent; when no task has, the delete removes \<open>x\<close> and nothing else.
\<close>

theorem delete_guarded_by_children:
  assumes "x \<in> set ts"
  shows "((\<exists>c\<in>set ts. parent_id c = Some (task_id x)) \<longrightarrow>
            delete_task (task_id x) (plan_id x) ts
              = (ts, Inl (ConflictError
                   ''Cannot delete task with subtasks. Delete subtasks first or use cascade delete.'')))
       \<and> ((\<forall>c\<in>set ts. parent_id c \<noteq> Some (task_id x)) \<and> unique_ids ts \<longrightarrow>
            delete_task (task_id x) (plan_id x) ts
              = (remove1 x ts, Inr ''Task deleted successfully'')
            \<and> x \<notin> set (remove1 x ts))"
proof -
  from assms have "findOne (\<lambda>t. task_id t = task_id x \<and> plan_id t = plan_id x) ts \<noteq> None"
    by (auto simp: findOne_None_iff)
  then obtain t where t: "findOne (\<lambda>t. task_id t = task_id x \<and> plan_id t = plan_id x) ts = Some t"
    by auto
  have conflict: "delete_task (task_id x) (plan_id x) ts
      = (ts, Inl (ConflictError
           ''Cannot delete task with subtasks. Delete subtasks first or use cascade delete.''))"
    if "\<exists>c\<in>set ts. parent_id c = Some (task_id x)"
  proof -
    from that have "findOne (\<lambda>c. parent_id c = Some (task_id x)) ts \<noteq> None"
      by (simp add: findOne_None_iff)
    then obtain c where "findOne (\<lambda>c. parent_id c = Some (task_id x)) ts = Some c"
      by auto
    with t show ?thesis by (simp add: delete_task_def)
  qed
  have removed: "delete_task (task_id x) (plan_id x) ts
        = (remove1 x ts, Inr ''Task deleted successfully'') \<and> x \<notin> set (remove1 x ts)"
    if "\<forall>c\<in>set ts. parent_id c \<noteq> Some (task_id x)" and "unique_ids ts"
  proof -
    from that(1) have "findOne (\<lambda>c. parent_id c = Some (task_id x)) ts = None"
      by (simp add: findOne_None_iff)
    moreover from that(2) have d: "distinct (map task_id ts)"
      by (simp add: unique_ids_def)
    moreover from d have "distinct ts"
      by (rule distinct_map [THEN iffD1, THEN conjunct1])
    ultimately show ?thesis
      using t assms by (simp add: delete_task_def findByIdAndDelete_remove1)
  qed
  from conflict removed show ?thesis by blast
qed

theorem delete_guarded_by_children_witness:
  "mk_task id_a plan_p Todo 1 None \<in> set [mk_task id_a plan_p Todo 1 None, mk_task id_b plan_p Todo 2 (Some id_a)]
   \<and> delete_task id_a plan_p [mk_task id_a plan_p Todo 1 None, mk_task id_b plan_p Todo 2 (Some id_a)]
       = ([mk_task id_a plan_p Todo 1 None, mk_task id_b plan_p Todo 2 (Some id_a)],
          Inl (ConflictError
            ''Cannot delete task with subtasks. Delete subtasks first or use cascade delete.''))
   \<and> mk_task id_a plan_p Todo 1 None \<in> set store_ab \<and> unique_ids store_ab
   \<and> delete_task id_a plan_p store_ab = ([mk_task id_b plan_p Todo 2 None], Inr ''Task deleted successfully'')"
proof -
  have m1: "mk_task id_a plan_p Todo 1 None
      \<in> set [mk_task id_a plan_p Todo 1 None, mk_task id_b plan_p Todo 2 (Some id_a)]"
    by simp
  have c1: "\<exists>c\<in>set [mk_task id_a plan_p Todo 1 None, mk_task id_b plan_p Todo 2 (Some id_a)].
      parent_id c = Some (task_id (mk_task id_a plan_p Todo 1 None))"
    by (simp add: mk_task_def)
  have m2: "mk_task id_a plan_p Todo 1 None \<in> set store_ab"
    by (simp add: store_ab_def)
  have c2: "\<forall>c\<in>set store_ab. parent_id c \<noteq> Some (task_id (mk_task id_a plan_p Todo 1 None))"
    by (simp add: store_ab_def mk_task_def)
  have u2: "unique_ids store_ab"
    by (simp add: unique_ids_def store_ab_def mk_task_def)
  have i: "task_id (mk_task id_a plan_p Todo 1 None) = id_a" "plan_id (mk_task id_a plan_p Todo 1 None) = plan_p"
    by (simp_all add: mk_task_def)
  have r: "remove1 (mk_task id_a plan_p Todo 1 None) store_ab = [mk_task id_b plan_p Todo 2 None]"
    by (simp add: store_ab_def)
  from delete_guarded_by_children [OF m1, THEN conjunct1, rule_format, OF c1] i
  have "delete_task id_a plan_p [mk_task id_a plan_p Todo 1 None, mk_task id_b plan_p Todo 2 (Some id_a)]
       = ([mk_task id_a plan_p Todo 1 None, mk_task id_b plan_p Todo 2 (Some id_a)],
          Inl (ConflictError
            ''Cannot delete task with subtasks. Delete subtasks first or use cascade delete.''))"
    by simp
  moreover from delete_guarded_by_children [OF m2, THEN conjunct2, rule_format, OF conjI [OF c2 u2]] i r
  have "delete_task id_a plan_p store_ab = ([mk_task id_b plan_p Todo 2 None], Inr ''Task deleted successfully'')"
    by simp
  ultimately show ?thesis
    using m1 m2 u2 by simp
qed

section \<open>The date rule\<close>

lemma create_rejects_due_before_start:
  assumes "in_start_date body = Some start" and "in_due_date body = Some due"
    and "start \<noteq> []" and "due \<noteq> []"
    and "parse start = Some s" and "parse due = Some d" and "d < s"
  shows "\<exists>is. create parse actor now new_id body ts = (ts, Inl (ValidationError ''Validation failed'' is))"
proof -
  have "\<not> due_after_start parse body"
    using assms by (simp add: due_after_start_def truthy_def date_ge_def)
  then have "taskSchema parse body \<noteq> []"
    by (simp add: taskSchema_def)
  then obtain i "is" where "taskSchema parse body = i # is"
    by (cases "taskSchema parse body") auto
  then show ?thesis
    by (simp add: create_def validateRequest_def)
qed

text \<open>
  C5 on the code: the create of a task due on 2024-01-01 and starting on 2024-01-15 is
  rejected on the field \<open>due_date\<close>, and the update of a task with the same two dates is
  accepted and saved, the update schema being the base schema without the refinement.
\<close>

theorem update_accepts_due_before_start:
  "date_ge iso_parse ''2024-01-01'' ''2024-01-15'' = False
   \<and> create iso_parse ''u1'' 7 id_c (mk_input plan_p Todo None (Some ''2024-01-15'') (Some ''2024-01-01'')) store_ab
       = (store_ab, Inl (ValidationError ''Validation failed''
                          [(''due_date'', ''Due date must be after start date'')]))
   \<and> update ''u1'' 7 id_a plan_p (dates_update (Some ''2024-01-15'') (Some ''2024-01-01'')) store_ab
       = ([(mk_task id_a plan_p Todo 1 None)\<lparr>start_date := Some ''2024-01-15'',
             due_date := Some ''2024-01-01'', updated_by := ''u1'', updated_at := 7\<rparr>,
           mk_task id_b plan_p Todo 2 None],
          Inr ((mk_task id_a plan_p Todo 1 None)\<lparr>start_date := Some ''2024-01-15'',
             due_date := Some ''2024-01-01'', updated_by := ''u1'', updated_at := 7\<rparr>))"
  by code_simp

section \<open>Properties of bulk create\<close>


lemma tasksToInsert_length [simp]:
  "length (tasksToInsert actor now new_id items plan) = length items"
  by (simp add: tasksToInsert_def)




















section \<open>Properties of the listing\<close>

lemma value_less_irrefl [simp]: "\<not> value_less x x"
  by (cases x) simp_all





lemma set_insert_by [simp]: "set (insert_by le x xs) = insert x (set xs)"
  by (induction xs) auto






lemma status_name_inject [simp]: "status_name s = status_name s' \<longleftrightarrow> s = s'"
  by (cases s; cases s') simp_all

lemma field_value_status [simp]: "field_value ''status'' dir t = VStr (status_name (status t))"
  by (simp add: field_value_def)

lemma field_value_order_index [simp]: "field_value ''order_index'' dir t = VNum (order_index t)"
  by (simp add: field_value_def)





section \<open>Properties of import\<close>

lemma enumerate_map_nth: "enumerate 0 xs = map (\<lambda>i. (i, xs ! i)) [0..<length xs]"
  by (rule nth_equalityI) (simp_all add: nth_enumerate_eq)

lemma filter_Boolean_map:
  "filter_Boolean (map F is) = map (\<lambda>i. the (F i)) (filter (\<lambda>i. F i \<noteq> None) is)"
  by (induction "is") (simp_all add: filter_Boolean_def)

lemma taskPromises_created:
  "filter_Boolean (taskPromises env actor now pid tasks)
     = map (\<lambda>i. import_Task env actor now pid (the (task_saved env i)) i (tasks ! i))
           (succeeded (task_saved env) (length tasks))"
proof -
  have "taskPromises env actor now pid tasks
      = map (\<lambda>i. case task_saved env i of None \<Rightarrow> None
                  | Some new_id \<Rightarrow> Some (import_Task env actor now pid new_id i (tasks ! i)))
            [0..<length tasks]"
    by (simp add: taskPromises_def enumerate_map_nth)
  then show ?thesis
    by (simp add: filter_Boolean_map succeeded_def split: option.splits cong: filter_cong)
qed

lemma memberPromises_processed:
  "map user_id (filter_Boolean (memberPromises env now ms))
     = map (\<lambda>i. the (member_user env i)) (succeeded (member_user env) (length ms))"
proof -
  have "memberPromises env now ms
      = map (\<lambda>i. case member_user env i of None \<Rightarrow> None
                  | Some u \<Rightarrow> Some \<lparr>user_id = u,
                      role = (case im_role (ms ! i) of None \<Rightarrow> Viewer | Some r \<Rightarrow> r),
                      joined_at = now\<rparr>)
            [0..<length ms]"
    by (simp add: memberPromises_def enumerate_map_nth)
  then show ?thesis
    by (simp add: filter_Boolean_map succeeded_def comp_def split: option.splits cong: filter_cong)
qed

lemma assigneeIds_succeeded:
  "assigneeIds env index as
     = map (\<lambda>j. the (assignee_user env index j)) (succeeded (assignee_user env index) (length as))"
  by (simp add: assigneeIds_def enumerate_map_nth filter_Boolean_map succeeded_def comp_def)

lemma import_plan_data_ok:
  assumes "import_issues (email_ok env) d = []" and "plan_saved env = Some pid"
    and "members_saved env"
  shows "import_plan_data env actor now d s
     = (\<lparr>db_plans = db_plans s
            @ [\<lparr>plan_ident = pid, name = ip_name (pd_plan d),
                plan_description = ip_description (pd_plan d), owner_id = actor,
                members = filter_Boolean (memberPromises env now (snapshot_members d))\<rparr>],
          db_tasks = db_tasks s
            @ filter_Boolean (taskPromises env actor now pid (snapshot_tasks d))\<rparr>,
        Inr (\<lparr>plan_ident = pid, name = ip_name (pd_plan d),
              plan_description = ip_description (pd_plan d), owner_id = actor,
              members = filter_Boolean (memberPromises env now (snapshot_members d))\<rparr>,
             length (filter_Boolean (taskPromises env actor now pid (snapshot_tasks d)))))"
  using assms
  by (simp add: import_plan_data_def validateRequest_def Let_def snapshot_members_def
      snapshot_tasks_def)

lemma import_plan_data_Inr:
  assumes "import_plan_data env actor now d s = (s', Inr (p, n))"
  shows "import_issues (email_ok env) d = [] \<and> plan_saved env = Some (plan_ident p)
         \<and> members_saved env"
proof (cases "validateRequest (import_issues (email_ok env) d)")
  case (Some e)
  with assms show ?thesis by (simp add: import_plan_data_def)
next
  case None
  then have i: "import_issues (email_ok env) d = []"
    by (cases "import_issues (email_ok env) d") (simp_all add: validateRequest_def)
  show ?thesis
  proof (cases "plan_saved env")
    case None
    with assms \<open>validateRequest (import_issues (email_ok env) d) = None\<close> show ?thesis
      by (simp add: import_plan_data_def)
  next
    case (Some pid)
    show ?thesis
    proof (cases "members_saved env")
      case True
      from import_plan_data_ok [OF i Some True, of actor now s] assms Some i True
      show ?thesis by auto
    next
      case False
      with assms \<open>validateRequest (import_issues (email_ok env) d) = None\<close> Some show ?thesis
        by (simp add: import_plan_data_def Let_def)
    qed
  qed
qed

lemma import_Task_sel:
  "task_id (import_Task env actor now pid new_id i x) = new_id"
  "plan_id (import_Task env actor now pid new_id i x) = pid"
  "order_index (import_Task env actor now pid new_id i x)
     = (case it_order_index x of None \<Rightarrow> int i | Some n \<Rightarrow> if n = 0 then int i else n)"
  "parent_id (import_Task env actor now pid new_id i x) = it_parent_id x"
  "dependency_ids (import_Task env actor now pid new_id i x)
     = (case it_dependency_ids x of None \<Rightarrow> [] | Some ds \<Rightarrow> ds)"
  by (simp_all add: import_Task_def or_index_def split: option.splits)

text \<open>
  C8, amended: every task an import creates comes from the snapshot entry at some index
  \<open>i\<close>; its order index is the entry's when the entry has one that is not 0, and the
  0-based index \<open>i\<close> when the entry has none or has 0; its parent and dependencies are the
  entry's strings as they are, whatever the ids of the created tasks.
\<close>

theorem import_task_fields:
  assumes "import_plan_data env actor now d s = (s', Inr (p, n))"
  shows "\<exists>created. db_tasks s' = db_tasks s @ created \<and> n = length created \<and>
           (\<forall>t\<in>set created. \<exists>i<length (snapshot_tasks d).
              task_saved env i = Some (task_id t) \<and> plan_id t = plan_ident p
              \<and> order_index t =
                  (case it_order_index (snapshot_tasks d ! i) of
                     None \<Rightarrow> int i
                   | Some x \<Rightarrow> if x = 0 then int i else x)
              \<and> parent_id t = it_parent_id (snapshot_tasks d ! i)
              \<and> dependency_ids t =
                  (case it_dependency_ids (snapshot_tasks d ! i) of None \<Rightarrow> [] | Some ds \<Rightarrow> ds))"
proof -
  let ?pid = "plan_ident p"
  let ?created = "filter_Boolean (taskPromises env actor now ?pid (snapshot_tasks d))"
  from import_plan_data_Inr [OF assms]
  have ok: "import_issues (email_ok env) d = []" "plan_saved env = Some ?pid" "members_saved env"
    by simp_all
  from import_plan_data_ok [OF ok, of actor now s] assms
  have s': "db_tasks s' = db_tasks s @ ?created" and n: "n = length ?created"
    by auto
  have "\<exists>i<length (snapshot_tasks d).
              task_saved env i = Some (task_id t) \<and> plan_id t = ?pid
              \<and> order_index t =
                  (case it_order_index (snapshot_tasks d ! i) of
                     None \<Rightarrow> int i
                   | Some x \<Rightarrow> if x = 0 then int i else x)
              \<and> parent_id t = it_parent_id (snapshot_tasks d ! i)
              \<and> dependency_ids t =
                  (case it_dependency_ids (snapshot_tasks d ! i) of None \<Rightarrow> [] | Some ds \<Rightarrow> ds)"
    if "t \<in> set ?created" for t
  proof -
    from that obtain i where i: "i < length (snapshot_tasks d)" "task_saved env i \<noteq> None"
      and t: "t = import_Task env actor now ?pid (the (task_saved env i)) i (snapshot_tasks d ! i)"
      by (auto simp: taskPromises_created succeeded_def)
    from i(2) have "task_saved env i = Some (task_id t)"
      unfolding t by (auto simp: import_Task_sel)
    with i(1) show ?thesis
      unfolding t by (intro exI [of _ i]) (simp add: import_Task_sel)
  qed
  with s' n show ?thesis by blast
qed

theorem import_task_fields_witness:
  "import_plan_data ok_env ''u1'' 7
      (mk_plan_data [] [mk_snapshot ''A'' (Some 4) (Some id_a) (Some [id_b]) None,
                        mk_snapshot ''B'' None None None None]) empty_db
     = (\<lparr>db_plans = [\<lparr>plan_ident = ''plan1'', name = ''Imported'', plan_description = None,
                       owner_id = ''u1'', members = []\<rparr>],
          db_tasks = [(mk_task ''n'' ''plan1'' Todo 4 (Some id_a))
                        \<lparr>title := ''A'', dependency_ids := [id_b], created_by := ''u1'',
                          updated_by := ''u1'', created_at := 7, updated_at := 7\<rparr>,
                      (mk_task ''nn'' ''plan1'' Todo 1 None)
                        \<lparr>title := ''B'', created_by := ''u1'',
                          updated_by := ''u1'', created_at := 7, updated_at := 7\<rparr>]\<rparr>,
        Inr (\<lparr>plan_ident = ''plan1'', name = ''Imported'', plan_description = None,
              owner_id = ''u1'', members = []\<rparr>, 2))"
proof -
  have e: "import_plan_data ok_env ''u1'' 7
      (mk_plan_data [] [mk_snapshot ''A'' (Some 4) (Some id_a) (Some [id_b]) None,
                        mk_snapshot ''B'' None None None None]) empty_db
     = (\<lparr>db_plans = [\<lparr>plan_ident = ''plan1'', name = ''Imported'', plan_description = None,
                       owner_id = ''u1'', members = []\<rparr>],
          db_tasks = [(mk_task ''n'' ''plan1'' Todo 4 (Some id_a))
                        \<lparr>title := ''A'', dependency_ids := [id_b], created_by := ''u1'',
                          updated_by := ''u1'', created_at := 7, updated_at := 7\<rparr>,
                      (mk_task ''nn'' ''plan1'' Todo 1 None)
                        \<lparr>title := ''B'', created_by := ''u1'',
                          updated_by := ''u1'', created_at := 7, updated_at := 7\<rparr>]\<rparr>,
        Inr (\<lparr>plan_ident = ''plan1'', name = ''Imported'', plan_description = None,
              owner_id = ''u1'', members = []\<rparr>, 2))"
    by code_simp
  from import_task_fields [OF e] e show ?thesis
    by simp
qed

text \<open>
  C8 as stated fails on an entry whose order index is 0: the second entry of the snapshot
  below has \<open>order_index = 0\<close>, and the task created from it has order index 1, its
  position.
\<close>

theorem import_zero_order_index_counterexample:
  "it_order_index ([mk_snapshot ''A'' None None None None, mk_snapshot ''B'' (Some 0) None None None] ! 1) = Some 0
   \<and> map order_index (db_tasks (fst (import_plan_data ok_env ''u1'' 7
        (mk_plan_data [] [mk_snapshot ''A'' None None None None, mk_snapshot ''B'' (Some 0) None None None])
        empty_db))) = [0, 1]
   \<and> map title (db_tasks (fst (import_plan_data ok_env ''u1'' 7
        (mk_plan_data [] [mk_snapshot ''A'' None None None None, mk_snapshot ''B'' (Some 0) None None None])
        empty_db))) = [''A'', ''B'']"
  by code_simp

text \<open>
  C10: when the request is well-formed and the plan itself is saved, the import succeeds
  whatever entries fail. The members of the plan are the members whose processing did not
  fail, the tasks created are the entries whose save did not fail, in the order of the
  snapshot, each with the assignees whose processing did not fail, and \<open>tasks_created\<close>
  is the number of tasks created.
\<close>

theorem import_best_effort:
  assumes "import_issues (email_ok env) d = []" and "plan_saved env = Some pid"
    and "members_saved env"
  shows "\<exists>p created.
           import_plan_data env actor now d s
             = (\<lparr>db_plans = db_plans s @ [p], db_tasks = db_tasks s @ created\<rparr>,
                Inr (p, length created))
           \<and> map user_id (members p)
               = map (\<lambda>i. the (member_user env i))
                     (succeeded (member_user env) (length (snapshot_members d)))
           \<and> created
               = map (\<lambda>i. import_Task env actor now pid (the (task_saved env i)) i
                            (snapshot_tasks d ! i))
                     (succeeded (task_saved env) (length (snapshot_tasks d)))
           \<and> (\<forall>i<length (snapshot_tasks d). \<forall>new_id.
                 assignee_ids (import_Task env actor now pid new_id i (snapshot_tasks d ! i))
                   = map (\<lambda>j. the (assignee_user env i j))
                         (succeeded (assignee_user env i)
                            (length (snapshot_assignees (snapshot_tasks d ! i)))))"
proof -
  have "assignee_ids (import_Task env actor now pid new_id i (snapshot_tasks d ! i))
          = map (\<lambda>j. the (assignee_user env i j))
                (succeeded (assignee_user env i)
                   (length (snapshot_assignees (snapshot_tasks d ! i))))" for i new_id
    by (simp add: import_Task_def assigneeIds_succeeded snapshot_assignees_def)
  then show ?thesis
    using import_plan_data_ok [OF assms, of actor now s]
    by (simp add: memberPromises_processed taskPromises_created)
qed

theorem import_best_effort_witness:
  "import_issues (email_ok flaky_env)
      (mk_plan_data [\<lparr>im_name = ''M0'', im_email = ''m0@x'', im_role = None\<rparr>,
                     \<lparr>im_name = ''M1'', im_email = ''m1@x'', im_role = Some Editor\<rparr>]
         [mk_snapshot ''A'' None None None
            (Some [\<lparr>ia_name = ''S0'', ia_email = ''s0@x''\<rparr>, \<lparr>ia_name = ''S1'', ia_email = ''s1@x''\<rparr>]),
          mk_snapshot ''B'' None None None None,
          mk_snapshot ''C'' None None None None]) = []
   \<and> plan_saved flaky_env = Some ''plan1'' \<and> members_saved flaky_env
   \<and> import_plan_data flaky_env ''u1'' 7
      (mk_plan_data [\<lparr>im_name = ''M0'', im_email = ''m0@x'', im_role = None\<rparr>,
                     \<lparr>im_name = ''M1'', im_email = ''m1@x'', im_role = Some Editor\<rparr>]
         [mk_snapshot ''A'' None None None
            (Some [\<lparr>ia_name = ''S0'', ia_email = ''s0@x''\<rparr>, \<lparr>ia_name = ''S1'', ia_email = ''s1@x''\<rparr>]),
          mk_snapshot ''B'' None None None None,
          mk_snapshot ''C'' None None None None]) empty_db
     = (\<lparr>db_plans = [\<lparr>plan_ident = ''plan1'', name = ''Imported'', plan_description = None,
                       owner_id = ''u1'',
                       members = [\<lparr>user_id = ''mnn'', role = Editor, joined_at = 7\<rparr>]\<rparr>],
          db_tasks = [(mk_task ''n'' ''plan1'' Todo 0 None)
                        \<lparr>title := ''A'', assignee_ids := [''sn''], created_by := ''u1'',
                          updated_by := ''u1'', created_at := 7, updated_at := 7\<rparr>,
                      (mk_task ''nnn'' ''plan1'' Todo 2 None)
                        \<lparr>title := ''C'', created_by := ''u1'',
                          updated_by := ''u1'', created_at := 7, updated_at := 7\<rparr>]\<rparr>,
        Inr (\<lparr>plan_ident = ''plan1'', name = ''Imported'', plan_description = None,
              owner_id = ''u1'',
              members = [\<lparr>user_id = ''mnn'', role = Editor, joined_at = 7\<rparr>]\<rparr>, 2))"
proof -
  let ?d = "mk_plan_data [\<lparr>im_name = ''M0'', im_email = ''m0@x'', im_role = None\<rparr>,
                     \<lparr>im_name = ''M1'', im_email = ''m1@x'', im_role = Some Editor\<rparr>]
         [mk_snapshot ''A'' None None None
            (Some [\<lparr>ia_name = ''S0'', ia_email = ''s0@x''\<rparr>, \<lparr>ia_name = ''S1'', ia_email = ''s1@x''\<rparr>]),
          mk_snapshot ''B'' None None None None,
          mk_snapshot ''C'' None None None None]"
  have a: "import_issues (email_ok flaky_env) ?d = []"
    by code_simp
  have b: "plan_saved flaky_env = Some ''plan1''"
    by (simp add: flaky_env_def)
  have c: "members_saved flaky_env"
    by (simp add: flaky_env_def)
  have e: "import_plan_data flaky_env ''u1'' 7 ?d empty_db
     = (\<lparr>db_plans = [\<lparr>plan_ident = ''plan1'', name = ''Imported'', plan_description = None,
                       owner_id = ''u1'',
                       members = [\<lparr>user_id = ''mnn'', role = Editor, joined_at = 7\<rparr>]\<rparr>],
          db_tasks = [(mk_task ''n'' ''plan1'' Todo 0 None)
                        \<lparr>title := ''A'', assignee_ids := [''sn''], created_by := ''u1'',
                          updated_by := ''u1'', created_at := 7, updated_at := 7\<rparr>,
                      (mk_task ''nnn'' ''plan1'' Todo 2 None)
                        \<lparr>title := ''C'', created_by := ''u1'',
                          updated_by := ''u1'', created_at := 7, updated_at := 7\<rparr>]\<rparr>,
        Inr (\<lparr>plan_ident = ''plan1'', name = ''Imported'', plan_description = None,
              owner_id = ''u1'',
              members = [\<lparr>user_id = ''mnn'', role = Editor, joined_at = 7\<rparr>]\<rparr>, 2))"
    by code_simp
  from import_best_effort [OF a b c, of "''u1''" 7 empty_db] a b c e show ?thesis
    by simp
qed

end
